theory Spec2Isabelle
  imports Complex_Main
begin

section \<open>The scoring service of \<^verbatim>\<open>services/scoring/main.py\<close>\<close>

text \<open>
  The module declares one enumeration, three pydantic models and two endpoints. Only the
  \<^verbatim>\<open>/score\<close> endpoint is the subject of the properties below.

  \<^verbatim>\<open>
  class VerificationResult(str, Enum):
      PASS = "PASS"
      FAIL = "FAIL"
      REGENERATE = "REGENERATE"
      STEP_UP = "STEP_UP"
  \<close>
\<close>

datatype VerificationResult = PASS | FAIL | REGENERATE | STEP_UP

text \<open>
  A Python \<^verbatim>\<open>float\<close> is either a finite number or one of the three non-finite values.
  Finite values are idealised as reals: the service never computes with a float, it only
  carries timestamps through and returns the literal \<^verbatim>\<open>0.95\<close>.
\<close>

datatype pyfloat = Finite real | PosInf | NegInf | NaN

text \<open>
  The values a \<^verbatim>\<open>dict\<close> decoded from a JSON body can hold. A dictionary is kept as an
  association list in insertion order, as Python keeps it.
\<close>

datatype json =
    JNone
  | JBool bool
  | JInt int
  | JFloat pyfloat
  | JStr string
  | JList "json list"
  | JDict "(string \<times> json) list"

type_synonym pydict = "(string \<times> json) list"

text \<open>
  \<^verbatim>\<open>
  class Event(BaseModel):
      type: str
      timestamp: float
      data: dict

  class ScoringRequest(BaseModel):
      session_id: str
      events: List[Event]

  class ScoringResponse(BaseModel):
      result: VerificationResult
      confidence: float
      details: Optional[dict] = None
  \<close>
\<close>

record Event =
  type :: string
  timestamp :: pyfloat
  data :: pydict

record ScoringRequest =
  session_id :: string
  events :: "Event list"

record ScoringResponse =
  result :: VerificationResult
  confidence :: pyfloat
  details :: "pydict option"

text \<open>
  \<^verbatim>\<open>
  @app.post("/score", response_model=ScoringResponse)
  async def score(request: ScoringRequest):
      # Placeholder - always returns PASS with high confidence
      return ScoringResponse(
          result=VerificationResult.PASS,
          confidence=0.95,
          details={"placeholder": True, "events_received": len(request.events)}
      )
  \<close>
  The body has no \<^verbatim>\<open>raise\<close>, no branch and no partial operation (\<^verbatim>\<open>len\<close> of a list always
  returns), and it reads nothing but its argument; so the embedding is a total function of
  the request with no error result and no state.
\<close>

definition score :: "ScoringRequest \<Rightarrow> ScoringResponse" where
  "score request =
     \<lparr>result = PASS,
      confidence = Finite (95 / 100),
      details = Some [(''placeholder'', JBool True),
                      (''events_received'', JInt (int (length (events request))))]\<rparr>"

text \<open>
  A run of the endpoint: the calls arrive in order and each is answered by \<open>score\<close> on its
  own request. The module keeps no variable that a call could write, so nothing is threaded
  from one call to the next.
\<close>

definition serve :: "ScoringRequest list \<Rightarrow> ScoringResponse list" where
  "serve calls = map score calls"

text \<open>Requests used as concrete inputs below.\<close>

definition one_event_request :: ScoringRequest where
  "one_event_request =
     \<lparr>session_id = ''new-session'',
      events = [\<lparr>type = ''pointer-move'', timestamp = Finite 0, data = []\<rparr>]\<rparr>"

definition odd_events_request :: ScoringRequest where
  "odd_events_request =
     \<lparr>session_id = '''',
      events = [\<lparr>type = ''no-such-kind'', timestamp = Finite (- 5), data = []\<rparr>,
                \<lparr>type = '''', timestamp = NaN,
                 data = [(''k'', JList [JNone, JDict [(''k'', JInt (- 1))]])]\<rparr>,
                \<lparr>type = ''key-press'', timestamp = PosInf, data = [(''x'', JFloat NegInf)]\<rparr>]\<rparr>"


section \<open>The scoring engine of the specification\<close>

text \<open>
  The specification describes an engine of seven components behind the endpoint: a
  normaliser, a feature extractor, a session aggregator, a classifier, a calibration layer,
  a decision policy and an orchestrator. \<^verbatim>\<open>main.py\<close> implements none of them, and the
  specification says so (``currently 0 percent implemented in source''). The definitions of this
  section are therefore written from the specification's sections 3, 4.3 and 4.6, not from
  code, and each says so. The idle-TTL sweep and the per-session lock of section 4.3 are
  left out: calls are taken one at a time.
\<close>

text \<open>
  Modelled from the spec: the configuration surface of section 6, restricted to the options
  the aggregator and the decision policy read (\<open>ttl\<close>, \<open>clock_skew_tolerance\<close> and
  \<open>request_deadline\<close> are read by neither). No Config type exists in the source.
\<close>

record Config =
  pass_threshold :: real
  fail_threshold :: real
  regenerate_threshold :: real
  max_regenerate :: nat
  retention_cap :: nat

text \<open>
  Modelled from the spec: NormalizedEvent of section 3, ``tagged variant over a closed set
  of event kinds (e.g., pointer-move, key-press, challenge-interaction, timing-beacon)''
  with a timestamp. No NormalizedEvent type exists in the source.
\<close>

datatype EventKind = PointerMove | KeyPress | ChallengeInteraction | TimingBeacon

record NormalizedEvent =
  kind :: EventKind
  time :: real

text \<open>
  Modelled from the spec: the states of the decision policy of section 4.6, ``INITIAL (no
  prior verdict), AWAITING_RETRY (after REGENERATE), ESCALATED (after STEP_UP), TERMINAL
  (PASS or FAIL reached)''. No state machine exists in the source.
\<close>

datatype PolicyState = INITIAL | AWAITING_RETRY | ESCALATED | TERMINAL

text \<open>
  Modelled from the spec: Session of section 3, ``an ordered sequence of NormalizedEvents
  \<dots>, a creation timestamp, a regenerate-count, and a step-up flag'', together with the
  state of the policy's machine, which section 4.6 keys by session. No Session type exists
  in the source.
\<close>

record Session =
  history :: "NormalizedEvent list"
  created :: real
  regenerate_count :: nat
  step_up_flag :: bool
  policy_state :: PolicyState

text \<open>
  Modelled from the spec: the fresh session of sections 3 and 4.3, ``created on first
  scoring request for a new session id'' with an ``empty history''. The source creates no
  session.
\<close>

definition new_session :: "real \<Rightarrow> Session" where
  "new_session now =
     \<lparr>history = [], created = now, regenerate_count = 0, step_up_flag = False,
      policy_state = INITIAL\<rparr>"

type_synonym SessionStore = "string \<rightharpoonup> Session"

text \<open>
  Modelled from the spec: \<open>get_or_create(session_id) -> Session\<close> of section 4.3; an
  unknown id ``transparently creates a fresh session (empty history) rather than failing''.
  The source has no session aggregator.
\<close>

definition get_or_create ::
  "SessionStore \<Rightarrow> real \<Rightarrow> string \<Rightarrow> Session \<times> SessionStore" where
  "get_or_create store now sid =
     (case store sid of
        Some s \<Rightarrow> (s, store)
      | None \<Rightarrow> (new_session now, store(sid \<mapsto> new_session now)))"

text \<open>
  Modelled from the spec: the retention cap of section 4.3, ``when the event count exceeds
  the cap, the oldest events are evicted (FIFO) before the new one is appended''. The count
  is taken with the new event included; just enough of the oldest events are dropped to
  bring the count back to the cap. The source has no session aggregator.
\<close>

definition evict_oldest :: "nat \<Rightarrow> 'a list \<Rightarrow> 'a list" where
  "evict_oldest cap h = (if cap < length h + 1 then drop (length h + 1 - cap) h else h)"

text \<open>
  Modelled from the spec: \<open>append(session_id, NormalizedEvent) -> Session\<close> of section 4.3,
  which evicts and then appends the new event, and returns the updated session. Section 8
  requires that the history ``never exceeds \<open>retention_cap\<close> after any append''; with a cap
  of zero no history can hold the new event, section 4.3 does not say what append does
  then, and the history is left empty. For every other cap the new event is appended. The
  source has no session aggregator.
\<close>

definition append_event ::
  "Config \<Rightarrow> SessionStore \<Rightarrow> real \<Rightarrow> string \<Rightarrow> NormalizedEvent \<Rightarrow> Session \<times> SessionStore" where
  "append_event cfg store now sid e =
     (case get_or_create store now sid of
        (s, store') \<Rightarrow>
          (let s' = s\<lparr>history :=
                      (if retention_cap cfg = 0 then []
                       else evict_oldest (retention_cap cfg) (history s) @ [e])\<rparr>
           in (s', store'(sid \<mapsto> s'))))"

text \<open>
  Modelled from the spec: the ambiguous band of section 4.6, ``\<open>fail_threshold\<close> < confidence
  < \<open>regenerate_threshold\<close>'', for a confidence that is not extreme (the PASS check comes
  first and wins). The source has no decision policy.
\<close>

definition ambiguous :: "Config \<Rightarrow> real \<Rightarrow> bool" where
  "ambiguous cfg c \<longleftrightarrow>
     c < pass_threshold cfg \<and> fail_threshold cfg < c \<and> c < regenerate_threshold cfg"

text \<open>
  Modelled from the spec: the transition rules of section 4.6, in the order the section
  fixes (``PASS/FAIL before REGENERATE before STEP_UP''):
  \<^item> confidence at or above \<open>pass_threshold\<close>: PASS, session to TERMINAL;
  \<^item> confidence at or below \<open>fail_threshold\<close>: FAIL, session to TERMINAL;
  \<^item> ambiguous band and \<open>regenerate_count < max_regenerate\<close>: REGENERATE, the count
    incremented, session to AWAITING_RETRY (not once escalated: ``once ESCALATED, further
    ambiguous results stay STEP_UP rather than re-REGENERATE'');
  \<^item> ambiguous band with the retries exhausted (or the session escalated), or sparse
    evidence: STEP_UP, session to ESCALATED.
  The result is \<open>None\<close> where the section states no transition: from TERMINAL (``no further
  transitions occur''), and for a confidence outside every rule. The confidence and the
  sparse-evidence mark are inputs: classifier, calibration and feature extraction are not
  modelled. The source has no decision policy.
\<close>

definition decide ::
  "Config \<Rightarrow> real \<Rightarrow> bool \<Rightarrow> Session \<Rightarrow> (VerificationResult \<times> Session) option" where
  "decide cfg c sparse s =
     (if policy_state s = TERMINAL then None
      else if pass_threshold cfg \<le> c then Some (PASS, s\<lparr>policy_state := TERMINAL\<rparr>)
      else if c \<le> fail_threshold cfg then Some (FAIL, s\<lparr>policy_state := TERMINAL\<rparr>)
      else if ambiguous cfg c \<and> regenerate_count s < max_regenerate cfg \<and> \<not> step_up_flag s then
        Some (REGENERATE,
              s\<lparr>regenerate_count := regenerate_count s + 1, policy_state := AWAITING_RETRY\<rparr>)
      else if (ambiguous cfg c \<and> (\<not> regenerate_count s < max_regenerate cfg \<or> step_up_flag s))
              \<or> sparse then
        Some (STEP_UP, s\<lparr>step_up_flag := True, policy_state := ESCALATED\<rparr>)
      else None)"

text \<open>
  Modelled from the spec: one session lifetime of section 4.6, the policy applied to a run
  of (confidence, sparse) inputs on the same session; the verdicts are collected in order.
  The source has no decision policy.
\<close>

fun within_lifetime ::
  "Config \<Rightarrow> (real \<times> bool) list \<Rightarrow> Session \<Rightarrow> VerificationResult list \<times> Session" where
  "within_lifetime cfg [] s = ([], s)"
| "within_lifetime cfg ((c, sparse) # rest) s =
     (case decide cfg c sparse s of
        None \<Rightarrow> within_lifetime cfg rest s
      | Some (v, s') \<Rightarrow>
          (case within_lifetime cfg rest s' of (vs, s'') \<Rightarrow> (v # vs, s'')))"

text \<open>
  Modelled from the spec: section 4.6, ``a new scoring request for a TERMINAL session must
  re-derive a fresh session (treated as a new attempt)''. The source keeps no session.
\<close>

definition session_for_request :: "real \<Rightarrow> Session \<Rightarrow> Session" where
  "session_for_request now s = (if policy_state s = TERMINAL then new_session now else s)"

text \<open>
  Modelled from the spec: the decision of one scoring request, the policy of section 4.6
  applied to the session the request is served on. The source has no decision policy.
\<close>

definition policy_request ::
  "Config \<Rightarrow> real \<Rightarrow> real \<Rightarrow> bool \<Rightarrow> Session \<Rightarrow> VerificationResult option \<times> Session" where
  "policy_request cfg now c sparse s =
     (case decide cfg c sparse (session_for_request now s) of
        None \<Rightarrow> (None, session_for_request now s)
      | Some (v, s') \<Rightarrow> (Some v, s'))"

text \<open>
  Modelled from the spec: a sequence of scoring calls on one session id, each given as
  (time, confidence, sparse); the session left by a call is the one the next call finds.
  The source keeps no session.
\<close>

fun policy_requests :: "Config \<Rightarrow> (real \<times> real \<times> bool) list \<Rightarrow> Session \<Rightarrow> Session" where
  "policy_requests cfg [] s = s"
| "policy_requests cfg ((now, c, sparse) # rest) s =
     policy_requests cfg rest (snd (policy_request cfg now c sparse s))"

text \<open>
  The thresholds of the specification's end-to-end scenarios (section 8), with a
  retention cap of three events, and a store holding one session at its cap.
\<close>

definition scenario_config :: Config where
  "scenario_config =
     \<lparr>pass_threshold = 9 / 10, fail_threshold = 2 / 10, regenerate_threshold = 6 / 10,
      max_regenerate = 2, retention_cap = 3\<rparr>"

definition three_event_store :: SessionStore where
  "three_event_store =
     Map.empty(''s-1'' \<mapsto>
       (new_session 0)\<lparr>history := [\<lparr>kind = PointerMove, time = 1\<rparr>,
                                   \<lparr>kind = KeyPress, time = 2\<rparr>,
                                   \<lparr>kind = TimingBeacon, time = 3\<rparr>]\<rparr>)"


section \<open>Properties of the scoring endpoint\<close>

lemma score_result [simp]: "result (score request) = PASS"
  by (simp add: score_def)

lemma score_confidence [simp]: "confidence (score request) = Finite (95 / 100)"
  by (simp add: score_def)

lemma score_details [simp]:
  "details (score request) =
     Some [(''placeholder'', JBool True),
           (''events_received'', JInt (int (length (events request))))]"
  by (simp add: score_def)

text \<open>
  C2. For every request, whatever its session id and whatever its events hold, \<open>score\<close>
  returns result \<open>PASS\<close>, confidence \<open>0.95\<close>, and a details dictionary in which
  \<open>placeholder\<close> is true and \<open>events_received\<close> is the number of events of the request.
\<close>

theorem score_placeholder_response:
  "result (score request) = PASS \<and>
   confidence (score request) = Finite (95 / 100) \<and>
   (\<exists>d. details (score request) = Some d \<and>
        map_of d ''placeholder'' = Some (JBool True) \<and>
        map_of d ''events_received'' = Some (JInt (int (length (events request)))))"
  by simp

text \<open>
  C3, as the specification states it: a request on a new session holding exactly one
  event is answered with \<open>STEP_UP\<close>. The endpoint answers such a request otherwise.
\<close>

theorem score_single_event_counterexample:
  "length (events one_event_request) = 1 \<and>
   result (score one_event_request) \<noteq> STEP_UP"
  by (simp add: one_event_request_def)

text \<open>
  C3, amended: a request holding exactly one event is answered with \<open>PASS\<close>, and its
  details report one event received.
\<close>

theorem score_single_event_passes:
  "length (events request) = 1 \<Longrightarrow>
   result (score request) = PASS \<and>
   details (score request) =
     Some [(''placeholder'', JBool True), (''events_received'', JInt 1)]"
  by simp

theorem score_single_event_passes_witness:
  "length (events one_event_request) = 1 \<and>
   result (score one_event_request) = PASS \<and>
   details (score one_event_request) =
     Some [(''placeholder'', JBool True), (''events_received'', JInt 1)]"
proof -
  have one: "length (events one_event_request) = 1"
    by (simp add: one_event_request_def)
  from score_single_event_passes [OF one] one show ?thesis
    by simp
qed

text \<open>
  C5. Any two calls of \<open>score\<close> yield the same confidence and the same result: neither
  value depends on the session id or the events of the request, nor on the calls that
  were served before it. Two calls made with identical session state and identical events
  are the special case \<open>r1 = r2\<close>, \<open>earlier1 = earlier2\<close>.
\<close>

theorem score_deterministic:
  "confidence (score r1) = confidence (score r2) \<and>
   result (score r1) = result (score r2) \<and>
   confidence (last (serve (earlier1 @ [r1]))) = confidence (last (serve (earlier2 @ [r2]))) \<and>
   result (last (serve (earlier1 @ [r1]))) = result (last (serve (earlier2 @ [r2])))"
  by (simp add: serve_def)

theorem score_deterministic_witness:
  "events one_event_request \<noteq> events odd_events_request \<and>
   confidence (score one_event_request) = confidence (score odd_events_request) \<and>
   result (score one_event_request) = result (score odd_events_request) \<and>
   confidence (last (serve ([odd_events_request] @ [one_event_request]))) =
     confidence (last (serve ([] @ [one_event_request]))) \<and>
   result (last (serve ([odd_events_request] @ [one_event_request]))) =
     result (last (serve ([] @ [one_event_request])))"
proof -
  have differ: "events one_event_request \<noteq> events odd_events_request"
    by (simp add: one_event_request_def odd_events_request_def)
  from score_deterministic [of one_event_request odd_events_request]
    score_deterministic [of one_event_request one_event_request "[odd_events_request]" "[]"]
    differ
  show ?thesis
    by blast
qed

text \<open>
  C10. Every request is answered with a response, never an error. Replacing the events
  of a request by any others of the same number (unrecognised type strings, negative or
  non-finite timestamps, arbitrary payloads) or replacing its session id leaves the response
  as it was, so no event is rejected; and in a run of calls the answer to the last call
  is \<open>score\<close> of that call's request alone, whatever calls came before.
\<close>

theorem score_accepts_every_request:
  "score (request\<lparr>events := map f (events request)\<rparr>) = score request \<and>
   score (request\<lparr>session_id := sid\<rparr>) = score request \<and>
   last (serve (earlier @ [request])) = score request \<and>
   score request =
     \<lparr>result = PASS, confidence = Finite (95 / 100),
      details = Some [(''placeholder'', JBool True),
                      (''events_received'', JInt (int (length (events request))))]\<rparr>"
  by (simp add: score_def serve_def)

theorem score_accepts_every_request_witness:
  "score odd_events_request =
     \<lparr>result = PASS, confidence = Finite (95 / 100),
      details = Some [(''placeholder'', JBool True), (''events_received'', JInt 3)]\<rparr>"
  using score_accepts_every_request
    [where request = odd_events_request and f = id and sid = "[]" and earlier = "[]"]
  by (simp add: odd_events_request_def)

section \<open>Properties of the engine as specified\<close>

lemma evict_oldest_length: "0 < cap \<Longrightarrow> length (evict_oldest cap h) < cap"
  by (auto simp: evict_oldest_def)

lemma evict_oldest_window:
  "0 < cap \<Longrightarrow> evict_oldest cap h @ [e] = drop (length (h @ [e]) - cap) (h @ [e])"
  by (auto simp: evict_oldest_def)

lemma decide_terminal: "policy_state s = TERMINAL \<Longrightarrow> decide cfg c sparse s = None"
  by (simp add: decide_def)

lemma within_lifetime_terminal:
  "policy_state s = TERMINAL \<Longrightarrow> within_lifetime cfg inputs s = ([], s)"
  by (induction inputs) (auto simp: decide_terminal)

lemma decide_count:
  "decide cfg c sparse s = Some (v, s') \<Longrightarrow> regenerate_count s \<le> max_regenerate cfg \<Longrightarrow>
   regenerate_count s' \<le> max_regenerate cfg"
  by (auto simp: decide_def split: if_splits)

lemma session_for_request_count:
  "regenerate_count s \<le> max_regenerate cfg \<Longrightarrow>
   regenerate_count (session_for_request now s) \<le> max_regenerate cfg"
  by (simp add: session_for_request_def new_session_def)

lemma policy_request_count:
  "regenerate_count s \<le> max_regenerate cfg \<Longrightarrow>
   regenerate_count (snd (policy_request cfg now c sparse s)) \<le> max_regenerate cfg"
  by (auto simp: policy_request_def session_for_request_count split: option.splits
           dest: decide_count [OF _ session_for_request_count])

lemma policy_requests_count:
  "regenerate_count s \<le> max_regenerate cfg \<Longrightarrow>
   regenerate_count (policy_requests cfg calls s) \<le> max_regenerate cfg"
  by (induction calls arbitrary: s) (auto simp: policy_request_count)

lemma within_lifetime_append:
  "within_lifetime cfg (xs @ ys) s =
     (case within_lifetime cfg xs s of
        (vs, s') \<Rightarrow> (case within_lifetime cfg ys s' of (ws, s'') \<Rightarrow> (vs @ ws, s'')))"
  by (induction xs arbitrary: s) (auto split: option.splits prod.splits)

lemma policy_request_terminal:
  "policy_state s = TERMINAL \<Longrightarrow>
   policy_request cfg now c sparse s = policy_request cfg now c sparse (new_session now)"
proof -
  assume "policy_state s = TERMINAL"
  then have fresh: "session_for_request now s = session_for_request now (new_session now)"
    by (simp add: session_for_request_def new_session_def)
  show ?thesis
    unfolding policy_request_def fresh ..
qed

text \<open>
  C7. Once a session's lifetime has reached TERMINAL, no further transition occurs in it:
  however the run of inputs continues, verdicts and session stay as they were when
  TERMINAL was reached, and the policy states no transition from the session. A new
  scoring request on the session is decided exactly as on a fresh session, so the stale
  terminal verdict is not reused.
\<close>

theorem terminal_is_final:
  "policy_state (snd (within_lifetime cfg before s0)) = TERMINAL \<Longrightarrow>
   within_lifetime cfg (before @ later) s0 = within_lifetime cfg before s0 \<and>
   decide cfg c sparse (snd (within_lifetime cfg before s0)) = None \<and>
   policy_request cfg now c sparse (snd (within_lifetime cfg before s0)) =
     policy_request cfg now c sparse (new_session now)"
proof (intro conjI)
  assume terminal: "policy_state (snd (within_lifetime cfg before s0)) = TERMINAL"
  obtain vs s where run: "within_lifetime cfg before s0 = (vs, s)"
    by (cases "within_lifetime cfg before s0")
  with terminal have "within_lifetime cfg later s = ([], s)"
    by (simp add: within_lifetime_terminal)
  with run show "within_lifetime cfg (before @ later) s0 = within_lifetime cfg before s0"
    by (simp add: within_lifetime_append)
  from terminal show "decide cfg c sparse (snd (within_lifetime cfg before s0)) = None"
    by (rule decide_terminal)
  from terminal show "policy_request cfg now c sparse (snd (within_lifetime cfg before s0)) =
     policy_request cfg now c sparse (new_session now)"
    by (rule policy_request_terminal)
qed

theorem terminal_is_final_witness:
  "policy_state (snd (within_lifetime scenario_config [(97 / 100, False)] (new_session 0))) = TERMINAL \<and>
   within_lifetime scenario_config ([(97 / 100, False)] @ [(4 / 10, False), (1 / 10, True)]) (new_session 0)
     = ([PASS], (new_session 0)\<lparr>policy_state := TERMINAL\<rparr>) \<and>
   policy_request scenario_config 7 (4 / 10) False
       (snd (within_lifetime scenario_config [(97 / 100, False)] (new_session 0)))
     = (Some REGENERATE, (new_session 7)\<lparr>regenerate_count := 1, policy_state := AWAITING_RETRY\<rparr>)"
proof -
  have t: "policy_state (snd (within_lifetime scenario_config [(97 / 100, False)] (new_session 0))) = TERMINAL"
    by (simp add: decide_def scenario_config_def new_session_def)
  have r: "within_lifetime scenario_config [(97 / 100, False)] (new_session 0)
     = ([PASS], (new_session 0)\<lparr>policy_state := TERMINAL\<rparr>)"
    by (simp add: decide_def scenario_config_def new_session_def)
  have f: "policy_request scenario_config 7 (4 / 10) False (new_session 7)
     = (Some REGENERATE, (new_session 7)\<lparr>regenerate_count := 1, policy_state := AWAITING_RETRY\<rparr>)"
    by (simp add: policy_request_def session_for_request_def decide_def ambiguous_def
        scenario_config_def new_session_def)
  from terminal_is_final [OF t, of "[(4 / 10, False), (1 / 10, True)]" "4 / 10" False 7] t r f
  show ?thesis
    by simp
qed

lemma session_for_request_live: "policy_state (session_for_request now s) \<noteq> TERMINAL"
  by (simp add: session_for_request_def new_session_def)

lemma decide_exhausted:
  "policy_state s \<noteq> TERMINAL \<Longrightarrow> ambiguous cfg c \<Longrightarrow>
   max_regenerate cfg \<le> regenerate_count s \<Longrightarrow>
   decide cfg c sparse s = Some (STEP_UP, s\<lparr>step_up_flag := True, policy_state := ESCALATED\<rparr>)"
  by (simp add: decide_def ambiguous_def)

lemma policy_request_exhausted:
  assumes "ambiguous cfg c"
    and "max_regenerate cfg \<le> regenerate_count (session_for_request now s)"
  shows "fst (policy_request cfg now c sparse s) = Some STEP_UP"
    and "regenerate_count (snd (policy_request cfg now c sparse s)) =
         regenerate_count (session_for_request now s)"
  using decide_exhausted [OF session_for_request_live assms, of sparse]
  by (simp_all add: policy_request_def)

lemma policy_request_regenerate:
  "fst (policy_request cfg now c sparse s) = Some REGENERATE \<Longrightarrow>
   regenerate_count (session_for_request now s) < max_regenerate cfg"
  by (auto simp: policy_request_def decide_def split: if_splits option.splits)

lemma new_session_count: "regenerate_count (new_session t) \<le> max_regenerate cfg"
  by (simp add: new_session_def)

text \<open>
  C8. For every sequence of scoring calls on a session, \<open>regenerate_count\<close> never exceeds
  \<open>max_regenerate\<close>, before and after the next call; once the limit is exhausted, an
  ambiguous confidence yields STEP_UP and leaves the count as it is; and a call that yields
  REGENERATE found the count below the limit.
\<close>

theorem regenerate_count_bounded:
  "reached = policy_requests cfg calls (new_session t) \<Longrightarrow>
   current = session_for_request now reached \<Longrightarrow>
   regenerate_count reached \<le> max_regenerate cfg \<and>
   regenerate_count (snd (policy_request cfg now c sparse reached)) \<le> max_regenerate cfg \<and>
   (ambiguous cfg c \<and> max_regenerate cfg \<le> regenerate_count current \<longrightarrow>
      fst (policy_request cfg now c sparse reached) = Some STEP_UP \<and>
      regenerate_count (snd (policy_request cfg now c sparse reached)) = regenerate_count current) \<and>
   (fst (policy_request cfg now c sparse reached) = Some REGENERATE \<longrightarrow>
      regenerate_count current < max_regenerate cfg)"
proof -
  assume reached: "reached = policy_requests cfg calls (new_session t)"
    and current: "current = session_for_request now reached"
  have bound: "regenerate_count reached \<le> max_regenerate cfg"
    unfolding reached by (rule policy_requests_count [OF new_session_count])
  then have "regenerate_count (snd (policy_request cfg now c sparse reached)) \<le> max_regenerate cfg"
    by (rule policy_request_count)
  with bound show ?thesis
    unfolding current
    by (simp add: policy_request_exhausted policy_request_regenerate)
qed

theorem regenerate_count_bounded_witness:
  "policy_requests scenario_config [(1, 4 / 10, False), (2, 4 / 10, False)] (new_session 0)
     = (new_session 0)\<lparr>regenerate_count := 2, policy_state := AWAITING_RETRY\<rparr> \<and>
   ambiguous scenario_config (4 / 10) \<and>
   max_regenerate scenario_config \<le> regenerate_count
     (session_for_request 3 ((new_session 0)\<lparr>regenerate_count := 2, policy_state := AWAITING_RETRY\<rparr>)) \<and>
   fst (policy_request scenario_config 3 (4 / 10) False
     ((new_session 0)\<lparr>regenerate_count := 2, policy_state := AWAITING_RETRY\<rparr>)) = Some STEP_UP \<and>
   fst (policy_request scenario_config 1 (4 / 10) False (new_session 0)) = Some REGENERATE \<and>
   regenerate_count (session_for_request 1 (new_session 0)) < max_regenerate scenario_config"
proof -
  let ?two = "(new_session 0)\<lparr>regenerate_count := 2, policy_state := AWAITING_RETRY\<rparr>"
  have run: "?two = policy_requests scenario_config [(1, 4 / 10, False), (2, 4 / 10, False)] (new_session 0)"
    by (simp add: policy_request_def session_for_request_def decide_def ambiguous_def
        scenario_config_def new_session_def)
  have amb: "ambiguous scenario_config (4 / 10)"
    by (simp add: ambiguous_def scenario_config_def)
  have full: "max_regenerate scenario_config \<le> regenerate_count (session_for_request 3 ?two)"
    by (simp add: session_for_request_def scenario_config_def new_session_def)
  have first: "new_session 0 = policy_requests scenario_config [] (new_session 0)"
    by simp
  have regen: "fst (policy_request scenario_config 1 (4 / 10) False (new_session 0)) = Some REGENERATE"
    by (simp add: policy_request_def session_for_request_def decide_def ambiguous_def
        scenario_config_def new_session_def)
  from regenerate_count_bounded [OF run refl, of 3 "4 / 10" False]
    regenerate_count_bounded [OF first refl, of 1 "4 / 10" False]
    run amb full regen
  show ?thesis
    by simp
qed

lemma drop_all_but_none: "drop (length (h @ [e]) - 0) (h @ [e]) = []"
  by simp

text \<open>
  C9. After every append, on any store and for any session id, the session's history is
  no longer than \<open>retention_cap\<close>: it is the last \<open>retention_cap\<close> events of the previous
  history followed by the new event, so the oldest events are the ones evicted, in
  arrival order; it is the session the store holds for the id; and when the cap is at
  least one the new event is its last element.
\<close>

theorem append_event_bounded:
  "append_event cfg store now sid e = (s', store') \<Longrightarrow>
   previous = history (fst (get_or_create store now sid)) \<Longrightarrow>
   length (history s') \<le> retention_cap cfg \<and>
   history s' = drop (length (previous @ [e]) - retention_cap cfg) (previous @ [e]) \<and>
   store' sid = Some s' \<and>
   (0 < retention_cap cfg \<longrightarrow> history s' \<noteq> [] \<and> last (history s') = e)"
proof -
  assume app: "append_event cfg store now sid e = (s', store')"
    and prev: "previous = history (fst (get_or_create store now sid))"
  obtain s st where got: "get_or_create store now sid = (s, st)"
    by (cases "get_or_create store now sid")
  with app have stored: "store' = st(sid \<mapsto> s')"
    and s': "s' = s\<lparr>history :=
        (if retention_cap cfg = 0 then []
         else evict_oldest (retention_cap cfg) (history s) @ [e])\<rparr>"
    by (auto simp: append_event_def Let_def)
  from stored have held: "store' sid = Some s'"
    by simp
  show ?thesis
  proof (cases "retention_cap cfg = 0")
    case True
    with s' have "history s' = []"
      by simp
    with True held show ?thesis
      by (simp only: drop_all_but_none) simp
  next
    case False
    then have cap: "0 < retention_cap cfg"
      by simp
    from s' False have h: "history s' = evict_oldest (retention_cap cfg) previous @ [e]"
      by (simp add: prev got)
    from cap have "length (evict_oldest (retention_cap cfg) previous) < retention_cap cfg"
      by (rule evict_oldest_length)
    with h have "length (history s') \<le> retention_cap cfg"
      by simp
    moreover from h cap
    have "history s' = drop (length (previous @ [e]) - retention_cap cfg) (previous @ [e])"
      by (simp only: evict_oldest_window)
    moreover from h have "history s' \<noteq> [] \<and> last (history s') = e"
      by simp
    ultimately show ?thesis
      using held by simp
  qed
qed

theorem append_event_bounded_witness:
  "0 < retention_cap scenario_config \<and>
   history (fst (append_event scenario_config three_event_store 9 ''s-1''
        \<lparr>kind = ChallengeInteraction, time = 4\<rparr>))
     = [\<lparr>kind = KeyPress, time = 2\<rparr>, \<lparr>kind = TimingBeacon, time = 3\<rparr>,
        \<lparr>kind = ChallengeInteraction, time = 4\<rparr>] \<and>
   length (history (fst (append_event scenario_config three_event_store 9 ''s-1''
        \<lparr>kind = ChallengeInteraction, time = 4\<rparr>))) \<le> retention_cap scenario_config \<and>
   last (history (fst (append_event scenario_config three_event_store 9 ''s-1''
        \<lparr>kind = ChallengeInteraction, time = 4\<rparr>))) = \<lparr>kind = ChallengeInteraction, time = 4\<rparr>"
proof -
  let ?e = "\<lparr>kind = ChallengeInteraction, time = 4\<rparr>"
  let ?r = "append_event scenario_config three_event_store 9 ''s-1'' ?e"
  have cap: "0 < retention_cap scenario_config"
    by (simp add: scenario_config_def)
  have prev: "[\<lparr>kind = PointerMove, time = 1\<rparr>, \<lparr>kind = KeyPress, time = 2\<rparr>,
               \<lparr>kind = TimingBeacon, time = 3\<rparr>]
      = history (fst (get_or_create three_event_store 9 ''s-1''))"
    by (simp add: get_or_create_def three_event_store_def new_session_def)
  have res: "?r = (fst ?r, snd ?r)"
    by simp
  from append_event_bounded [OF res prev] cap show ?thesis
    by (simp add: scenario_config_def)
qed

end
